theory Spec2Isabelle
  imports Main "HOL-Library.Multiset"
begin

section \<open>Exceptions\<close>

text \<open>
  The exception classes that \<^verbatim>\<open>parser.py\<close> and \<^verbatim>\<open>filters.py\<close> raise, each
  with its message. A function that can raise returns \<open>error + 'a\<close>, \<open>Inl\<close> the exception.
  Calls of \<^verbatim>\<open>print\<close> are left out everywhere: no function reads what was printed.
\<close>

datatype error =
    ValueError string
  | ConnectionError string
  | PermissionError string
  | IOError string

fun str_of :: "error \<Rightarrow> string" where
  "str_of (ValueError s) = s"
| "str_of (ConnectionError s) = s"
| "str_of (PermissionError s) = s"
| "str_of (IOError s) = s"

section \<open>Strings\<close>

text \<open>
  Strings are ASCII. \<^verbatim>\<open>str.lower\<close> turns the capital letters into small ones, and
  \<open>quoted\<close> is a string between the single quotes that the messages put around it.
\<close>

definition lower_char :: "char \<Rightarrow> char" where
  "lower_char c =
     (let n = (of_char c :: nat) in if 65 \<le> n \<and> n \<le> 90 then char_of (n + 32) else c)"

definition lower :: "string \<Rightarrow> string" where
  "lower s = map lower_char s"

definition quoted :: "string \<Rightarrow> string" where
  "quoted s = CHR 0x27 # s @ [CHR 0x27]"

section \<open>Messages (parser.py, class SlackMessage)\<close>

text \<open>
  \<^verbatim>\<open>timestamp\<close> is a float of seconds in the source; here it is a count of
  microseconds, the resolution of a Slack \<^verbatim>\<open>ts\<close>. A \<^verbatim>\<open>datetime\<close> is a naive
  local date and time; Python orders naive datetimes by their calendar fields, which is
  the order of a count of microseconds on the local calendar. The conversion
  \<^verbatim>\<open>datetime.fromtimestamp\<close> depends on the time zone of the machine, so it is a
  parameter of every function that reads \<^verbatim>\<open>message.datetime\<close>.
\<close>

type_synonym timestamp = int
type_synonym datetime = int
type_synonym reaction = "(string \<times> string) list"

record slack_message =
  msg_text :: string
  user :: string
  timestamp :: timestamp
  channel :: string
  thread_ts :: "string option"
  reply_count :: int
  reactions :: "reaction list"

definition datetime :: "(timestamp \<Rightarrow> datetime) \<Rightarrow> slack_message \<Rightarrow> datetime" where
  "datetime fromtimestamp message = fromtimestamp (timestamp message)"

section \<open>Filters (filters.py)\<close>

subsection \<open>TimeRangeFilter\<close>

text \<open>
  A \<^verbatim>\<open>datetime\<close> object is always true in a condition, so \<^verbatim>\<open>if start_time\<close>
  asks whether the bound is present.
\<close>

record time_range_filter =
  start_time :: "datetime option"
  end_time :: "datetime option"

definition TimeRangeFilter_init ::
  "datetime option \<Rightarrow> datetime option \<Rightarrow> error + time_range_filter" where
  "TimeRangeFilter_init start_time' end_time' =
     (if start_time' \<noteq> None \<and> end_time' \<noteq> None \<and> the start_time' > the end_time'
      then Inl (ValueError ''start_time must be before end_time'')
      else Inr \<lparr>start_time = start_time', end_time = end_time'\<rparr>)"

definition TimeRangeFilter_call ::
  "(timestamp \<Rightarrow> datetime) \<Rightarrow> time_range_filter \<Rightarrow> slack_message \<Rightarrow> bool" where
  "TimeRangeFilter_call fromtimestamp self message =
     (let msg_datetime = datetime fromtimestamp message in
      if start_time self \<noteq> None \<and> msg_datetime < the (start_time self) then False
      else if end_time self \<noteq> None \<and> msg_datetime > the (end_time self) then False
      else True)"

subsection \<open>RegexFilter\<close>





subsection \<open>A fragment of re\<close>












section \<open>Applying filters (parser.py, filter_messages)\<close>

text \<open>
  A filter is any callable from a message to a truth value; a pure filter is a function
  \<open>slack_message \<Rightarrow> bool\<close>. Each filter goes over the whole list that the filters
  before it left.
\<close>

fun filter_messages ::
  "slack_message list \<Rightarrow> (slack_message \<Rightarrow> bool) list \<Rightarrow> slack_message list" where
  "filter_messages messages [] = messages"
| "filter_messages messages (filter_obj # filters) =
     filter_messages [msg \<leftarrow> messages. filter_obj msg] filters"

section \<open>The Slack API over HTTP (parser.py, class SlackMessageParser)\<close>

subsection \<open>Requests, responses and the trace of effects\<close>

text \<open>
  The query parameters of a request are a dictionary from names to strings and integers,
  kept in insertion order. A response body is the JSON object that the Slack API sends,
  typed by the keys the client reads: \<^verbatim>\<open>ok\<close>, \<^verbatim>\<open>error\<close>, \<^verbatim>\<open>messages\<close> and
  \<^verbatim>\<open>response_metadata.next_cursor\<close>; a key that is absent is \<open>None\<close>. In a message
  record the \<^verbatim>\<open>ts\<close> and \<^verbatim>\<open>reply_count\<close> hold the numbers that \<^verbatim>\<open>float\<close> and
  \<^verbatim>\<open>int\<close> read from them.
\<close>

datatype pval = PStr string | PInt int

type_synonym params = "(string \<times> pval) list"

record msg_data =
  d_text :: "string option"
  d_user :: "string option"
  d_ts :: "timestamp option"
  d_thread_ts :: "string option"
  d_reply_count :: "int option"
  d_reactions :: "reaction list option"

record slack_data =
  j_ok :: "bool option"
  j_error :: "string option"
  j_messages :: "msg_data list option"
  j_next_cursor :: "string option"

text \<open>
  A response has its status code, the value of its \<^verbatim>\<open>Retry-After\<close> header when it
  has one, the text of the HTTPError that \<^verbatim>\<open>raise_for_status\<close> raises for it when
  the status is an error status, and its body.
\<close>

record response =
  status_code :: nat
  retry_after :: "string option"
  http_error :: string
  json :: slack_data

datatype get_outcome = RequestException string | Response response

text \<open>
  What the client does to the outside is a trace of events, oldest first: the requests it
  sends and the waits it makes. The network is a function from the trace, whose last
  event is the request being sent, to what \<^verbatim>\<open>session.get\<close> does with it: any
  deterministic server, and any failure of the transport, is such a function.
\<close>

datatype event = Get string params | Sleep int

type_synonym server = "event list \<Rightarrow> get_outcome"

subsection \<open>Reading the Retry-After header\<close>

text \<open>
  \<^verbatim>\<open>int(s)\<close> of a string: surrounding whitespace is dropped, then an optional sign,
  then decimal digits, where single underscores may stand between digits. Header values
  are ASCII, and the whitespace that \<^verbatim>\<open>int\<close> drops from an ASCII string is the
  tab, the line feed, the vertical tab, the form feed, the carriage return and the
  space; any other character around the digits makes \<^verbatim>\<open>int\<close> raise.
\<close>

definition is_space :: "char \<Rightarrow> bool" where
  "is_space c = (c \<in> set [CHR 0x09, CHR 0x0A, CHR 0x0B, CHR 0x0C, CHR 0x0D, CHR 0x20])"

definition strip :: "string \<Rightarrow> string" where
  "strip s = rev (dropWhile is_space (rev (dropWhile is_space s)))"

definition digit_of :: "char \<Rightarrow> nat option" where
  "digit_of c = (let n = (of_char c :: nat) in if 48 \<le> n \<and> n \<le> 57 then Some (n - 48) else None)"

fun digits :: "nat \<Rightarrow> string \<Rightarrow> nat option" where
  "digits acc [] = Some acc"
| "digits acc (c # cs) =
     (if c = CHR ''_'' then
        (case cs of
           [] \<Rightarrow> None
         | d # ds \<Rightarrow> (case digit_of d of None \<Rightarrow> None | Some v \<Rightarrow> digits (10 * acc + v) ds))
      else (case digit_of c of None \<Rightarrow> None | Some v \<Rightarrow> digits (10 * acc + v) cs))"

definition py_int :: "string \<Rightarrow> int option" where
  "py_int s =
     (let t = strip s;
          neg = (t \<noteq> [] \<and> hd t = CHR ''-'');
          u = (if t \<noteq> [] \<and> (hd t = CHR ''-'' \<or> hd t = CHR ''+'') then tl t else t)
      in case u of
           [] \<Rightarrow> None
         | c # cs \<Rightarrow>
             (case digit_of c of
                None \<Rightarrow> None
              | Some v \<Rightarrow> map_option (\<lambda>n. if neg then - int n else int n) (digits v cs)))"

text \<open>
  \<^verbatim>\<open>int(response.headers.get("Retry-After", 60))\<close>. The message of the
  ValueError shows the header between single quotes, as \<^verbatim>\<open>repr\<close> shows a string
  of printable characters.
\<close>

definition retry_after_seconds :: "response \<Rightarrow> error + int" where
  "retry_after_seconds response =
     (case retry_after response of
        None \<Rightarrow> Inr 60
      | Some h \<Rightarrow>
          (case py_int h of
             None \<Rightarrow>
               Inl (ValueError (''invalid literal for int() with base 10: '' @ quoted h))
           | Some n \<Rightarrow> Inr n))"

subsection \<open>_make_request\<close>

text \<open>
  The loop of \<^verbatim>\<open>_make_request\<close> has no bound, so the function is partial: \<open>None\<close>
  is a call that never returns. A call that returns gives the dictionary or the
  exception, and the trace as the call left it. \<^verbatim>\<open>time.sleep\<close> raises ValueError on
  a negative length; that and the ValueError of \<^verbatim>\<open>int\<close> are not
  RequestExceptions, so they leave the function as they are.
\<close>

definition api_url :: "string \<Rightarrow> string" where
  "api_url endpoint = ''https://slack.com/api/'' @ endpoint"

partial_function (option) make_request ::
  "server \<Rightarrow> string \<Rightarrow> params \<Rightarrow> event list \<Rightarrow> ((error + slack_data) \<times> event list) option" where
  "make_request srv endpoint params tr =
     (let url = api_url endpoint;
          tr1 = tr @ [Get url params]
      in case srv tr1 of
           RequestException e \<Rightarrow>
             Some (Inl (ConnectionError
               (''Network error: '' @ e @ ''. Please check your connection and try again.'')), tr1)
         | Response response \<Rightarrow>
             if status_code response = 429 then
               (case retry_after_seconds response of
                  Inl e \<Rightarrow> Some (Inl e, tr1)
                | Inr retry_after' \<Rightarrow>
                    if retry_after' < 0
                    then Some (Inl (ValueError ''sleep length must be non-negative''), tr1)
                    else make_request srv endpoint params (tr1 @ [Sleep retry_after']))
             else if 400 \<le> status_code response \<and> status_code response < 600 then
               Some (Inl (ConnectionError
                 (''Network error: '' @ http_error response @
                  ''. Please check your connection and try again.'')), tr1)
             else
               (let data = json response in
                if \<not> (case j_ok data of None \<Rightarrow> False | Some b \<Rightarrow> b) then
                  (let error_msg = (case j_error data of None \<Rightarrow> ''Unknown error'' | Some c \<Rightarrow> c) in
                   if error_msg = ''channel_not_found'' then
                     Some (Inl (ValueError
                       ''Channel not found. Please check the channel ID format (C...)''), tr1)
                   else if error_msg = ''invalid_auth'' then
                     Some (Inl (ValueError ''Invalid authentication. Please check your token.''), tr1)
                   else Some (Inl (ValueError (''Slack API error: '' @ error_msg)), tr1))
                else Some (Inr data, tr1)))"

subsection \<open>get_channel_messages\<close>

text \<open>
  In a condition an optional integer is true when it is present and not zero, an
  optional string when it is present and not empty. \<^verbatim>\<open>messages[:limit]\<close> with a
  negative limit drops that many messages from the end.
\<close>

definition truthy_int :: "int option \<Rightarrow> bool" where
  "truthy_int limit = (limit \<noteq> None \<and> limit \<noteq> Some 0)"

definition truthy_str :: "string option \<Rightarrow> bool" where
  "truthy_str cursor = (cursor \<noteq> None \<and> cursor \<noteq> Some [])"

definition slice_to :: "'a list \<Rightarrow> int \<Rightarrow> 'a list" where
  "slice_to xs n = (if 0 \<le> n then take (nat n) xs else take (length xs - nat (- n)) xs)"

definition SlackMessage :: "string \<Rightarrow> msg_data \<Rightarrow> slack_message" where
  "SlackMessage channel_id msg_data =
     \<lparr>msg_text = (case d_text msg_data of None \<Rightarrow> [] | Some t \<Rightarrow> t),
      user = (case d_user msg_data of None \<Rightarrow> [] | Some u \<Rightarrow> u),
      timestamp = (case d_ts msg_data of None \<Rightarrow> 0 | Some t \<Rightarrow> t),
      channel = channel_id,
      thread_ts = d_thread_ts msg_data,
      reply_count = (case d_reply_count msg_data of None \<Rightarrow> 0 | Some n \<Rightarrow> n),
      reactions = (case d_reactions msg_data of None \<Rightarrow> [] | Some r \<Rightarrow> r)\<rparr>"

text \<open>\<^verbatim>\<open>data.get("messages", [])\<close>\<close>

definition get_messages :: "slack_data \<Rightarrow> msg_data list" where
  "get_messages data = (case j_messages data of None \<Rightarrow> [] | Some b \<Rightarrow> b)"

definition history_params :: "string \<Rightarrow> int option \<Rightarrow> string option \<Rightarrow> int \<Rightarrow> params" where
  "history_params channel_id limit cursor fetched_count =
     [(''channel'', PStr channel_id),
      (''limit'', PInt (if truthy_int limit then min 1000 (the limit - fetched_count) else 1000))]
     @ (if truthy_str cursor then [(''cursor'', PStr (the cursor))] else [])"

text \<open>
  The state of the loop is the list of messages so far, the cursor and the count. The
  loop ends only on a limit reached or on a response without a cursor, so it is partial
  as well.
\<close>

partial_function (option) fetch_loop ::
  "server \<Rightarrow> string \<Rightarrow> int option \<Rightarrow> slack_message list \<Rightarrow> string option \<Rightarrow> int \<Rightarrow>
   event list \<Rightarrow> ((error + slack_message list) \<times> event list) option" where
  "fetch_loop srv channel_id limit messages cursor fetched_count tr =
     (case make_request srv ''conversations.history''
             (history_params channel_id limit cursor fetched_count) tr of
        None \<Rightarrow> None
      | Some (Inl e, tr1) \<Rightarrow> Some (Inl e, tr1)
      | Some (Inr data, tr1) \<Rightarrow>
          (let batch_messages = get_messages data;
               messages1 = messages @ map (SlackMessage channel_id) batch_messages;
               fetched_count1 = fetched_count + int (length batch_messages)
           in if truthy_int limit \<and> fetched_count1 \<ge> the limit
              then Some (Inr (slice_to messages1 (the limit)), tr1)
              else if \<not> truthy_str (j_next_cursor data) then Some (Inr messages1, tr1)
              else fetch_loop srv channel_id limit messages1 (j_next_cursor data)
                     fetched_count1 tr1))"

definition get_channel_messages ::
  "server \<Rightarrow> string \<Rightarrow> int option \<Rightarrow> event list \<Rightarrow>
   ((error + slack_message list) \<times> event list) option" where
  "get_channel_messages srv channel_id limit tr = fetch_loop srv channel_id limit [] None 0 tr"

subsection \<open>Servers for the scenarios\<close>


text \<open>
  A server that holds a channel as a list of pages and answers the k-th request of the
  trace with the k-th page, whatever page size the request asks for. Every page but the
  last comes with a cursor.
\<close>

fun is_get :: "event \<Rightarrow> bool" where
  "is_get (Get url params) = True"
| "is_get (Sleep n) = False"

definition page_response :: "msg_data list \<Rightarrow> string option \<Rightarrow> response" where
  "page_response page cursor =
     \<lparr>status_code = 200, retry_after = None, http_error = [],
      json = \<lparr>j_ok = Some True, j_error = None, j_messages = Some page,
              j_next_cursor = cursor\<rparr>\<rparr>"

definition paged_server :: "msg_data list list \<Rightarrow> server" where
  "paged_server pages tr =
     (let k = length (filter is_get tr) in
      if 0 < k \<and> k < length pages
        then Response (page_response (pages ! (k - 1)) (Some (replicate k (CHR ''c''))))
      else if 0 < k \<and> k = length pages
        then Response (page_response (pages ! (k - 1)) None)
      else RequestException ''no page'')"

section \<open>Reporting errors (cli.py, main)\<close>

text \<open>
  The handlers of \<^verbatim>\<open>main\<close>, in their order: what is printed for an exception that
  leaves \<^verbatim>\<open>process_messages\<close>. Every one of them ends the process with exit code 1.
  The handler for KeyboardInterrupt is left out: no function of the model raises it.
\<close>

datatype report =
    Configuration_Error string
  | Network_Error string
  | Unexpected_Error string

fun main_except :: "error \<Rightarrow> report" where
  "main_except (ValueError e) = Configuration_Error e"
| "main_except (ConnectionError e) = Network_Error e"
| "main_except e = Unexpected_Error (str_of e)"

section \<open>Export (parser.py, export_messages)\<close>

subsection \<open>What is written\<close>

text \<open>
  \<^verbatim>\<open>to_dict\<close> and the rows of the CSV file. The text that \<^verbatim>\<open>isoformat\<close> makes of
  a datetime is kept as the datetime it renders.
\<close>

record message_dict =
  dict_text :: string
  dict_user :: string
  dict_timestamp :: timestamp
  dict_datetime :: datetime
  dict_channel :: string
  dict_thread_ts :: "string option"
  dict_reply_count :: int
  dict_reactions :: "reaction list"

definition to_dict :: "(timestamp \<Rightarrow> datetime) \<Rightarrow> slack_message \<Rightarrow> message_dict" where
  "to_dict fromtimestamp self =
     \<lparr>dict_text = msg_text self, dict_user = user self, dict_timestamp = timestamp self,
      dict_datetime = datetime fromtimestamp self, dict_channel = channel self,
      dict_thread_ts = thread_ts self, dict_reply_count = reply_count self,
      dict_reactions = reactions self\<rparr>"

datatype cell = Str string | Num int | Iso datetime

definition csv_header :: "cell list" where
  "csv_header = [Str ''datetime'', Str ''user'', Str ''text'', Str ''channel'',
                 Str ''thread_ts'', Str ''reply_count'']"

definition csv_row :: "(timestamp \<Rightarrow> datetime) \<Rightarrow> slack_message \<Rightarrow> cell list" where
  "csv_row fromtimestamp msg =
     [Iso (datetime fromtimestamp msg), Str (user msg), Str (msg_text msg), Str (channel msg),
      Str (case thread_ts msg of None \<Rightarrow> [] | Some t \<Rightarrow> t), Num (reply_count msg)]"

datatype file_content = Json "message_dict list" | Csv "cell list list"

subsection \<open>The file system\<close>

text \<open>
  As for the network: the operations on the file system are a trace, and the file system
  is a function from the trace to the exception, if any, that its last operation raises.
  \<open>WriteFile\<close> is opening the file for writing and writing the content.
\<close>

datatype fs_event = Makedirs string | WriteFile string file_content

type_synonym filesystem = "fs_event list \<Rightarrow> error option"

text \<open>\<^verbatim>\<open>os.path.dirname\<close> (POSIX).\<close>

definition dirname :: "string \<Rightarrow> string" where
  "dirname p =
     (let head = rev (dropWhile (\<lambda>c. c \<noteq> CHR ''/'') (rev p)) in
      if head \<noteq> [] \<and> \<not> list_all (\<lambda>c. c = CHR ''/'') head
      then rev (dropWhile (\<lambda>c. c = CHR ''/'') (rev head))
      else head)"

subsection \<open>export_messages\<close>

text \<open>
  Every exception of the model is an OSError or a ValueError, so whatever
  \<^verbatim>\<open>os.makedirs\<close> raises is passed over. The second \<^verbatim>\<open>try\<close> holds the two writes
  and the \<^verbatim>\<open>raise\<close> of the last branch; its handlers see whatever is raised inside.
\<close>

definition export_messages ::
  "filesystem \<Rightarrow> (timestamp \<Rightarrow> datetime) \<Rightarrow> slack_message list \<Rightarrow> string \<Rightarrow> string \<Rightarrow>
   fs_event list \<Rightarrow> (error + unit) \<times> fs_event list" where
  "export_messages fs fromtimestamp messages output_path format tr =
     (if messages = [] then (Inr (), tr)
      else
        let tr1 = tr @ [Makedirs (dirname output_path)];
            (raised, tr2) =
              (if lower format = ''json'' then
                 (let tr2 = tr1 @ [WriteFile output_path
                                     (Json (map (to_dict fromtimestamp) messages))]
                  in (fs tr2, tr2))
               else if lower format = ''csv'' then
                 (let tr2 = tr1 @ [WriteFile output_path
                                     (Csv (csv_header # map (csv_row fromtimestamp) messages))]
                  in (fs tr2, tr2))
               else (Some (ValueError (''Unsupported format: '' @ format @ ''. Use '' @
                             quoted ''json'' @ '' or '' @ quoted ''csv'')), tr1))
        in case raised of
             None \<Rightarrow> (Inr (), tr2)
           | Some (PermissionError e) \<Rightarrow>
               (Inl (PermissionError (''Permission denied writing to '' @ output_path @
                       ''. Please check file permissions.'')), tr2)
           | Some e \<Rightarrow> (Inl (IOError (''Error writing file: '' @ str_of e)), tr2))"

section \<open>Properties of the filters\<close>

lemma filter_messages_conj:
  "filter_messages messages filters = [msg \<leftarrow> messages. \<forall>f \<in> set filters. f msg]"
proof (induction filters arbitrary: messages)
  case Nil
  show ?case by simp
next
  case (Cons f filters)
  show ?case
    by (simp add: Cons.IH conj_commute)
qed

lemma filter_messages_set:
  assumes "set filters = set filters'"
  shows "filter_messages messages filters = filter_messages messages filters'"
  by (simp add: filter_messages_conj assms)

text \<open>
  Claim C5. For every message and every time-range filter built from optional bounds
  \<open>lo\<close> and \<open>hi\<close>, the filter accepts the message exactly when (\<open>lo\<close> is absent or
  the message's calendar timestamp is at or after \<open>lo\<close>) and (\<open>hi\<close> is absent or the
  calendar timestamp is at or before \<open>hi\<close>). Both bounds are inclusive: a filter whose
  two bounds are the message's own calendar timestamp can be built and accepts it.
\<close>

theorem TimeRangeFilter_call_iff:
  "(TimeRangeFilter_init lo hi = Inr f \<longrightarrow>
      TimeRangeFilter_call fromtimestamp f m =
        ((case lo of None \<Rightarrow> True | Some l \<Rightarrow> l \<le> datetime fromtimestamp m) \<and>
         (case hi of None \<Rightarrow> True | Some h \<Rightarrow> datetime fromtimestamp m \<le> h))) \<and>
   (\<exists>g. TimeRangeFilter_init (Some (datetime fromtimestamp m)) (Some (datetime fromtimestamp m)) = Inr g
       \<and> TimeRangeFilter_call fromtimestamp g m)"
  by (auto simp: TimeRangeFilter_init_def TimeRangeFilter_call_def Let_def
           split: if_splits option.splits)

theorem TimeRangeFilter_call_iff_witness:
  "TimeRangeFilter_init (Some 10) (Some 20) = Inr \<lparr>start_time = Some 10, end_time = Some 20\<rparr> \<and>
   TimeRangeFilter_call (\<lambda>ts. ts + 5) \<lparr>start_time = Some 10, end_time = Some 20\<rparr>
     \<lparr>msg_text = ''hi'', user = ''U1'', timestamp = 15, channel = ''C1'', thread_ts = None,
      reply_count = 0, reactions = []\<rparr> \<and>
   \<not> TimeRangeFilter_call (\<lambda>ts. ts + 5) \<lparr>start_time = Some 10, end_time = Some 20\<rparr>
     \<lparr>msg_text = ''hi'', user = ''U1'', timestamp = 16, channel = ''C1'', thread_ts = None,
      reply_count = 0, reactions = []\<rparr>"
proof -
  have i: "TimeRangeFilter_init (Some 10) (Some 20) = Inr \<lparr>start_time = Some 10, end_time = Some 20\<rparr>"
    by (simp add: TimeRangeFilter_init_def)
  show ?thesis
    using i
      TimeRangeFilter_call_iff [of "Some 10" "Some 20" "\<lparr>start_time = Some 10, end_time = Some 20\<rparr>"
        "\<lambda>ts. ts + 5"
        "\<lparr>msg_text = ''hi'', user = ''U1'', timestamp = 15, channel = ''C1'', thread_ts = None,
          reply_count = 0, reactions = []\<rparr>"]
      TimeRangeFilter_call_iff [of "Some 10" "Some 20" "\<lparr>start_time = Some 10, end_time = Some 20\<rparr>"
        "\<lambda>ts. ts + 5"
        "\<lparr>msg_text = ''hi'', user = ''U1'', timestamp = 16, channel = ''C1'', thread_ts = None,
          reply_count = 0, reactions = []\<rparr>"]
    by (simp add: datetime_def)
qed

text \<open>
  Claim C6. Building a time-range filter fails, with a ValueError (the configuration
  error), if and only if both bounds are present and the lower one is strictly after
  the upper one; with equal bounds, or with either bound absent, it succeeds and the
  filter holds the two bounds as given.
\<close>

theorem TimeRangeFilter_init_fails_iff:
  "TimeRangeFilter_init lo hi =
     (case (lo, hi) of
        (Some l, Some h) \<Rightarrow>
          if l > h then Inl (ValueError ''start_time must be before end_time'')
          else Inr \<lparr>start_time = Some l, end_time = Some h\<rparr>
      | _ \<Rightarrow> Inr \<lparr>start_time = lo, end_time = hi\<rparr>)"
  by (simp add: TimeRangeFilter_init_def split: option.splits)

text \<open>
  Claim C8. With the empty filter list, filter_messages returns the input list as it
  is. With any list of pure filters, the result is the input filtered once by the
  conjunction of the filters, in the input's order, and it is the same for any
  reordering of the filter list.
\<close>

theorem filter_messages_conjunction:
  "filter_messages messages [] = messages \<and>
   filter_messages messages filters = [msg \<leftarrow> messages. \<forall>f \<in> set filters. f msg] \<and>
   (mset filters = mset filters' \<longrightarrow>
      filter_messages messages filters = filter_messages messages filters')"
proof (intro conjI impI)
  show "filter_messages messages [] = messages" by simp
  show "filter_messages messages filters = [msg \<leftarrow> messages. \<forall>f \<in> set filters. f msg]"
    by (rule filter_messages_conj)
  assume "mset filters = mset filters'"
  then have "set filters = set filters'" by (rule mset_eq_setD)
  then show "filter_messages messages filters = filter_messages messages filters'"
    by (rule filter_messages_set)
qed

theorem filter_messages_conjunction_witness:
  "mset [\<lambda>m::slack_message. user m = ''U1'', \<lambda>m. 0 < reply_count m] =
     mset [\<lambda>m. 0 < reply_count m, \<lambda>m. user m = ''U1''] \<and>
   filter_messages
     [\<lparr>msg_text = ''a'', user = ''U1'', timestamp = 1, channel = ''C1'', thread_ts = None,
        reply_count = 0, reactions = []\<rparr>,
      \<lparr>msg_text = ''b'', user = ''U1'', timestamp = 2, channel = ''C1'', thread_ts = None,
        reply_count = 2, reactions = []\<rparr>,
      \<lparr>msg_text = ''c'', user = ''U2'', timestamp = 3, channel = ''C1'', thread_ts = None,
        reply_count = 1, reactions = []\<rparr>]
     [\<lambda>m. user m = ''U1'', \<lambda>m. 0 < reply_count m] =
   filter_messages
     [\<lparr>msg_text = ''a'', user = ''U1'', timestamp = 1, channel = ''C1'', thread_ts = None,
        reply_count = 0, reactions = []\<rparr>,
      \<lparr>msg_text = ''b'', user = ''U1'', timestamp = 2, channel = ''C1'', thread_ts = None,
        reply_count = 2, reactions = []\<rparr>,
      \<lparr>msg_text = ''c'', user = ''U2'', timestamp = 3, channel = ''C1'', thread_ts = None,
        reply_count = 1, reactions = []\<rparr>]
     [\<lambda>m. 0 < reply_count m, \<lambda>m. user m = ''U1'']"
proof -
  let ?ms = "[\<lparr>msg_text = ''a'', user = ''U1'', timestamp = 1, channel = ''C1'', thread_ts = None,
        reply_count = 0, reactions = []\<rparr>,
      \<lparr>msg_text = ''b'', user = ''U1'', timestamp = 2, channel = ''C1'', thread_ts = None,
        reply_count = 2, reactions = []\<rparr>,
      \<lparr>msg_text = ''c'', user = ''U2'', timestamp = 3, channel = ''C1'', thread_ts = None,
        reply_count = 1, reactions = []\<rparr>]"
  have p: "mset [\<lambda>m::slack_message. user m = ''U1'', \<lambda>m. 0 < reply_count m] =
     mset [\<lambda>m. 0 < reply_count m, \<lambda>m. user m = ''U1'']"
    by (simp add: add_mset_commute)
  from p filter_messages_conjunction
      [of ?ms "[\<lambda>m. user m = ''U1'', \<lambda>m. 0 < reply_count m]"
          "[\<lambda>m. 0 < reply_count m, \<lambda>m. user m = ''U1'']"]
  have "filter_messages ?ms [\<lambda>m. user m = ''U1'', \<lambda>m. 0 < reply_count m] =
        filter_messages ?ms [\<lambda>m. 0 < reply_count m, \<lambda>m. user m = ''U1'']"
    by blast
  with p show ?thesis by (rule conjI)
qed

subsection \<open>The pattern filter\<close>










section \<open>Properties of the client\<close>

subsection \<open>One request\<close>



text \<open>
  A header that \<^verbatim>\<open>int\<close> does not read, or that gives a negative number, ends the
  call with a ValueError after the one request: there is no wait and no retry.
\<close>

lemma make_request_bad_retry_after:
  assumes "srv (tr @ [Get (api_url endpoint) params]) = Response r"
    and "status_code r = 429"
    and "retry_after r = Some h"
    and "py_int h = None"
  shows "make_request srv endpoint params tr =
           Some (Inl (ValueError (''invalid literal for int() with base 10: '' @ quoted h)),
                 tr @ [Get (api_url endpoint) params])"
  using assms
  by (subst make_request.simps) (simp add: Let_def retry_after_seconds_def)

lemma make_request_negative_retry_after:
  assumes "srv (tr @ [Get (api_url endpoint) params]) = Response r"
    and "status_code r = 429"
    and "retry_after r = Some h"
    and "py_int h = Some n"
    and "n < 0"
  shows "make_request srv endpoint params tr =
           Some (Inl (ValueError ''sleep length must be non-negative''),
                 tr @ [Get (api_url endpoint) params])"
  using assms
  by (subst make_request.simps) (simp add: Let_def retry_after_seconds_def)

lemma py_int_not_whitespace:
  "py_int [CHR 0x1F, CHR ''5''] = None"
  by (simp add: py_int_def strip_def is_space_def digit_of_def)




lemma make_request_error_mapping:
  assumes "srv (tr @ [Get (api_url endpoint) params]) = Response r"
    and "status_code r \<noteq> 429"
    and "status_code r < 400 \<or> 600 \<le> status_code r"
    and "j_ok (json r) = None \<or> j_ok (json r) = Some False"
  shows "make_request srv endpoint params tr =
           Some (Inl (ValueError
             (case j_error (json r) of
                None \<Rightarrow> ''Slack API error: Unknown error''
              | Some code \<Rightarrow>
                  if code = ''channel_not_found''
                    then ''Channel not found. Please check the channel ID format (C...)''
                  else if code = ''invalid_auth''
                    then ''Invalid authentication. Please check your token.''
                  else ''Slack API error: '' @ code)),
             tr @ [Get (api_url endpoint) params])"
  using assms
  by (subst make_request.simps) (auto simp add: Let_def split: option.splits)

lemma make_request_ok:
  assumes "srv (tr @ [Get (api_url endpoint) params]) = Response r"
    and "status_code r < 400"
    and "j_ok (json r) = Some True"
  shows "make_request srv endpoint params tr =
           Some (Inr (json r), tr @ [Get (api_url endpoint) params])"
  using assms
  by (subst make_request.simps) (simp add: Let_def)

lemma make_request_page:
  assumes "srv (tr @ [Get (api_url endpoint) params]) = Response (page_response page cursor)"
  shows "make_request srv endpoint params tr =
           Some (Inr \<lparr>j_ok = Some True, j_error = None, j_messages = Some page,
                       j_next_cursor = cursor\<rparr>,
                 tr @ [Get (api_url endpoint) params])"
  using make_request_ok [of srv tr endpoint params "page_response page cursor"] assms
  by (simp add: page_response_def)

subsection \<open>The pagination loop\<close>

lemma fetch_loop_limit_reached:
  assumes "make_request srv ''conversations.history''
             (history_params channel_id (Some l) cursor (int (length messages))) tr
           = Some (Inr data, tr1)"
    and "0 < l"
    and "l \<le> int (length messages) + int (length (get_messages data))"
  shows "fetch_loop srv channel_id (Some l) messages cursor (int (length messages)) tr =
           Some (Inr (take (nat l) (messages @ map (SlackMessage channel_id) (get_messages data))),
                 tr1)"
  using assms
  by (subst fetch_loop.simps) (simp add: Let_def truthy_int_def slice_to_def)

lemma fetch_loop_continue:
  assumes "make_request srv ''conversations.history''
             (history_params channel_id limit cursor fetched_count) tr
           = Some (Inr data, tr1)"
    and "\<not> (truthy_int limit \<and> the limit \<le> fetched_count + int (length (get_messages data)))"
  shows "fetch_loop srv channel_id limit messages cursor fetched_count tr =
           (if \<not> truthy_str (j_next_cursor data)
            then Some (Inr (messages @ map (SlackMessage channel_id) (get_messages data)), tr1)
            else fetch_loop srv channel_id limit
                   (messages @ map (SlackMessage channel_id) (get_messages data))
                   (j_next_cursor data) (fetched_count + int (length (get_messages data))) tr1)"
proof -
  from assms(2)
  have c: "(truthy_int limit \<and> the limit \<le> fetched_count + int (length (get_messages data))) = False"
    by simp
  show ?thesis
    by (subst fetch_loop.simps) (simp only: assms(1) Let_def c option.case prod.case sum.case if_False if_not_P)
qed

lemma fetch_loop_error:
  assumes "make_request srv ''conversations.history''
             (history_params channel_id limit cursor fetched_count) tr
           = Some (Inl e, tr1)"
  shows "fetch_loop srv channel_id limit messages cursor fetched_count tr = Some (Inl e, tr1)"
  using assms
  by (subst fetch_loop.simps) simp

lemma fetch_loop_bound_aux:
  assumes run: "fetch_loop srv channel_id limit messages cursor fetched_count tr = Some y"
  shows "\<forall>l result tr'. limit = Some l \<and> 0 < l \<and> fetched_count = int (length messages) \<and> fetched_count < l \<and>
           y = (Inr result, tr') \<longrightarrow> int (length result) \<le> l"
proof (rule fetch_loop.raw_induct
         [where P = "\<lambda>srv channel_id limit messages cursor fetched_count tr y.
            \<forall>l result tr'. limit = Some l \<and> 0 < l \<and> fetched_count = int (length messages) \<and>
              fetched_count < l \<and> y = (Inr result, tr') \<longrightarrow> int (length result) \<le> l",
          OF _ run], goal_cases)
  case (1 loop srv channel_id limit messages cursor fetched_count tr y)
  show ?case
  proof (intro allI impI, elim conjE)
    fix l result tr'
    assume h: "limit = Some l" "0 < l" "fetched_count = int (length messages)"
      "fetched_count < l" "y = (Inr result, tr')"
    from 1(2) obtain res tr1 where mr: "make_request srv ''conversations.history''
             (history_params channel_id limit cursor fetched_count) tr = Some (res, tr1)"
      by (auto split: option.splits)
    show "int (length result) \<le> l"
    proof (cases res)
      case (Inl e)
      with 1(2) mr h show ?thesis by simp
    next
      case (Inr data)
      let ?m1 = "messages @ map (SlackMessage channel_id) (get_messages data)"
      let ?f1 = "fetched_count + int (length (get_messages data))"
      show ?thesis
      proof (cases "l \<le> ?f1")
        case True
        with 1(2) mr Inr h have "result = slice_to ?m1 l"
          by (simp add: Let_def truthy_int_def)
        with h show ?thesis by (simp add: slice_to_def)
      next
        case False
        show ?thesis
        proof (cases "truthy_str (j_next_cursor data)")
          case c: False
          with 1(2) mr Inr h False have "result = ?m1"
            by (simp add: Let_def truthy_int_def)
          with h False show ?thesis by simp
        next
          case c: True
          with 1(2) mr Inr h False
          have "loop srv channel_id limit ?m1 (j_next_cursor data) ?f1 tr1 = Some y"
            by (simp add: Let_def truthy_int_def)
          from 1(1) [OF this] h False show ?thesis by simp
        qed
      qed
    qed
  qed
qed

lemma history_params_zero:
  "history_params channel_id (Some 0) cursor fetched_count =
   history_params channel_id None cursor fetched_count"
  by (simp add: history_params_def truthy_int_def)

lemma fetch_loop_falsy_limit:
  assumes run: "fetch_loop srv channel_id limit messages cursor fetched_count tr = Some y"
    and falsy: "\<not> truthy_int limit" "\<not> truthy_int limit'"
  shows "fetch_loop srv channel_id limit' messages cursor fetched_count tr = Some y"
proof -
  have "\<not> truthy_int limit \<longrightarrow>
        fetch_loop srv channel_id limit' messages cursor fetched_count tr = Some y"
  proof (rule fetch_loop.raw_induct
         [where P = "\<lambda>srv channel_id limit messages cursor fetched_count tr y.
            \<not> truthy_int limit \<longrightarrow>
            fetch_loop srv channel_id limit' messages cursor fetched_count tr = Some y",
          OF _ run], goal_cases)
    case (1 loop srv channel_id limit messages cursor fetched_count tr y)
    show ?case
    proof
      assume f: "\<not> truthy_int limit"
      have p: "history_params channel_id limit cursor fetched_count =
               history_params channel_id limit' cursor fetched_count"
        using f falsy(2) by (simp add: history_params_def)
      from 1(2) obtain res tr1 where mr: "make_request srv ''conversations.history''
             (history_params channel_id limit cursor fetched_count) tr = Some (res, tr1)"
        by (auto split: option.splits)
      show "fetch_loop srv channel_id limit' messages cursor fetched_count tr = Some y"
      proof (cases res)
        case (Inl e)
        with 1(2) mr have "y = (Inl e, tr1)" by simp
        with mr Inl p show ?thesis by (subst fetch_loop.simps) simp
      next
        case (Inr data)
        let ?m1 = "messages @ map (SlackMessage channel_id) (get_messages data)"
        let ?f1 = "fetched_count + int (length (get_messages data))"
        show ?thesis
        proof (cases "truthy_str (j_next_cursor data)")
          case False
          with 1(2) mr Inr f have "y = (Inr ?m1, tr1)" by (simp add: Let_def)
          with mr Inr p False falsy(2) show ?thesis
            by (subst fetch_loop.simps) (simp add: Let_def)
        next
          case True
          with 1(2) mr Inr f have "loop srv channel_id limit ?m1 (j_next_cursor data) ?f1 tr1 = Some y"
            by (simp add: Let_def)
          from 1(1) [OF this] f
          have "fetch_loop srv channel_id limit' ?m1 (j_next_cursor data) ?f1 tr1 = Some y"
            by simp
          with mr Inr p True falsy(2) show ?thesis
            by (subst fetch_loop.simps) (simp add: Let_def)
        qed
      qed
    qed
  qed
  with falsy show ?thesis by simp
qed

lemma fetch_loop_zero_limit:
  "fetch_loop srv channel_id (Some 0) messages cursor fetched_count tr =
   fetch_loop srv channel_id None messages cursor fetched_count tr"
proof (cases "fetch_loop srv channel_id (Some 0) messages cursor fetched_count tr")
  case (Some y)
  then have "fetch_loop srv channel_id None messages cursor fetched_count tr = Some y"
    by (rule fetch_loop_falsy_limit) (simp_all add: truthy_int_def)
  with Some show ?thesis by simp
next
  case None
  show ?thesis
  proof (cases "fetch_loop srv channel_id None messages cursor fetched_count tr")
    case N: None
    with None show ?thesis by simp
  next
    case (Some y)
    then have "fetch_loop srv channel_id (Some 0) messages cursor fetched_count tr = Some y"
      by (rule fetch_loop_falsy_limit) (simp_all add: truthy_int_def)
    with None show ?thesis by simp
  qed
qed

lemma three_pages_no_limit:
  "get_channel_messages (paged_server [p1, p2, p3]) channel_id None [] =
     Some (Inr (map (SlackMessage channel_id) (p1 @ p2 @ p3)),
       [Get (api_url ''conversations.history'')
          [(''channel'', PStr channel_id), (''limit'', PInt 1000)],
        Get (api_url ''conversations.history'')
          [(''channel'', PStr channel_id), (''limit'', PInt 1000), (''cursor'', PStr ''c'')],
        Get (api_url ''conversations.history'')
          [(''channel'', PStr channel_id), (''limit'', PInt 1000), (''cursor'', PStr ''cc'')]])"
proof -
  let ?srv = "paged_server [p1, p2, p3]"
  let ?g1 = "Get (api_url ''conversations.history'')
          [(''channel'', PStr channel_id), (''limit'', PInt 1000)]"
  let ?g2 = "Get (api_url ''conversations.history'')
          [(''channel'', PStr channel_id), (''limit'', PInt 1000), (''cursor'', PStr ''c'')]"
  let ?g3 = "Get (api_url ''conversations.history'')
          [(''channel'', PStr channel_id), (''limit'', PInt 1000), (''cursor'', PStr ''cc'')]"
  let ?m1 = "map (SlackMessage channel_id) p1"
  let ?m2 = "map (SlackMessage channel_id) (p1 @ p2)"
  have r1: "make_request ?srv ''conversations.history''
              (history_params channel_id None None 0) [] =
            Some (Inr \<lparr>j_ok = Some True, j_error = None, j_messages = Some p1,
                       j_next_cursor = Some ''c''\<rparr>, [?g1])"
    using make_request_page [of ?srv "[]" "''conversations.history''"
        "history_params channel_id None None 0" p1 "Some ''c''"]
    by (simp add: paged_server_def history_params_def truthy_int_def truthy_str_def)
  have r2: "make_request ?srv ''conversations.history''
              (history_params channel_id None (Some ''c'') (int (length p1))) [?g1] =
            Some (Inr \<lparr>j_ok = Some True, j_error = None, j_messages = Some p2,
                       j_next_cursor = Some ''cc''\<rparr>, [?g1, ?g2])"
    using make_request_page [of ?srv "[?g1]" "''conversations.history''"
        "history_params channel_id None (Some ''c'') (int (length p1))" p2 "Some ''cc''"]
    by (simp add: paged_server_def history_params_def truthy_int_def truthy_str_def)
  have r3: "make_request ?srv ''conversations.history''
              (history_params channel_id None (Some ''cc'') (int (length p1) + int (length p2)))
              [?g1, ?g2] =
            Some (Inr \<lparr>j_ok = Some True, j_error = None, j_messages = Some p3,
                       j_next_cursor = None\<rparr>, [?g1, ?g2, ?g3])"
    using make_request_page [of ?srv "[?g1, ?g2]" "''conversations.history''"
        "history_params channel_id None (Some ''cc'') (int (length p1) + int (length p2))" p3 None]
    by (simp add: paged_server_def history_params_def truthy_int_def truthy_str_def)
  have "fetch_loop ?srv channel_id None [] None 0 [] =
        fetch_loop ?srv channel_id None ?m1 (Some ''c'') (int (length p1)) [?g1]"
    using fetch_loop_continue [OF r1, of "[]"]
    by (simp add: truthy_int_def truthy_str_def get_messages_def)
  also have "\<dots> = fetch_loop ?srv channel_id None ?m2 (Some ''cc'')
                      (int (length p1) + int (length p2)) [?g1, ?g2]"
    using fetch_loop_continue [OF r2, of ?m1]
    by (simp add: truthy_int_def truthy_str_def get_messages_def)
  also have "\<dots> = Some (Inr (map (SlackMessage channel_id) (p1 @ p2 @ p3)), [?g1, ?g2, ?g3])"
    using fetch_loop_continue [OF r3, of ?m2]
    by (simp add: truthy_int_def truthy_str_def get_messages_def)
  finally show ?thesis by (simp add: get_channel_messages_def)
qed

lemma three_pages_limit:
  assumes "length p1 = 1000" "length p2 = 1000"
  shows "get_channel_messages (paged_server [p1, p2, p3]) channel_id (Some 1500) [] =
     Some (Inr (take 1500 (map (SlackMessage channel_id) (p1 @ p2))),
       [Get (api_url ''conversations.history'')
          [(''channel'', PStr channel_id), (''limit'', PInt 1000)],
        Get (api_url ''conversations.history'')
          [(''channel'', PStr channel_id), (''limit'', PInt 500), (''cursor'', PStr ''c'')]])"
proof -
  let ?srv = "paged_server [p1, p2, p3]"
  let ?g1 = "Get (api_url ''conversations.history'')
          [(''channel'', PStr channel_id), (''limit'', PInt 1000)]"
  let ?g2 = "Get (api_url ''conversations.history'')
          [(''channel'', PStr channel_id), (''limit'', PInt 500), (''cursor'', PStr ''c'')]"
  let ?m1 = "map (SlackMessage channel_id) p1"
  have r1: "make_request ?srv ''conversations.history''
              (history_params channel_id (Some 1500) None 0) [] =
            Some (Inr \<lparr>j_ok = Some True, j_error = None, j_messages = Some p1,
                       j_next_cursor = Some ''c''\<rparr>, [?g1])"
    using make_request_page [of ?srv "[]" "''conversations.history''"
        "history_params channel_id (Some 1500) None 0" p1 "Some ''c''"]
    by (simp add: paged_server_def history_params_def truthy_int_def truthy_str_def)
  have r2: "make_request ?srv ''conversations.history''
              (history_params channel_id (Some 1500) (Some ''c'') (int (length ?m1))) [?g1] =
            Some (Inr \<lparr>j_ok = Some True, j_error = None, j_messages = Some p2,
                       j_next_cursor = Some ''cc''\<rparr>, [?g1, ?g2])"
    using make_request_page [of ?srv "[?g1]" "''conversations.history''"
        "history_params channel_id (Some 1500) (Some ''c'') (int (length ?m1))" p2 "Some ''cc''"]
      assms
    by (simp add: paged_server_def history_params_def truthy_int_def truthy_str_def)
  have "fetch_loop ?srv channel_id (Some 1500) [] None 0 [] =
        fetch_loop ?srv channel_id (Some 1500) ?m1 (Some ''c'') (int (length ?m1)) [?g1]"
    using fetch_loop_continue [OF r1, of "[]"] assms
    by (simp add: truthy_int_def truthy_str_def get_messages_def)
  also have "\<dots> = Some (Inr (take 1500 (map (SlackMessage channel_id) (p1 @ p2))), [?g1, ?g2])"
    using fetch_loop_limit_reached [OF r2] assms
    by (simp add: get_messages_def)
  finally show ?thesis by (simp add: get_channel_messages_def)
qed

subsection \<open>Rate limiting\<close>




subsection \<open>Error mapping\<close>

text \<open>
  Claim C3, as amended. For a response whose status is neither 429 nor an error status
  and whose body does not say \<open>ok\<close>, the call raises a ValueError after that one
  request: for the code \<open>channel_not_found\<close> with a message naming the channel ID
  format, for \<open>invalid_auth\<close> with a message about the token, for any other code
  with the message \<open>Slack API error: \<close> followed by the code as it is. All three are
  the same kind of exception, the one that main reports as a configuration error.
\<close>

theorem make_request_api_error:
  "srv (tr @ [Get (api_url endpoint) params]) = Response r \<and>
   status_code r \<noteq> 429 \<and> (status_code r < 400 \<or> 600 \<le> status_code r) \<and>
   (j_ok (json r) = None \<or> j_ok (json r) = Some False)
   \<longrightarrow> (\<exists>msg.
          make_request srv endpoint params tr =
            Some (Inl (ValueError msg), tr @ [Get (api_url endpoint) params]) \<and>
          main_except (ValueError msg) = Configuration_Error msg \<and>
          msg = (case j_error (json r) of
                   None \<Rightarrow> ''Slack API error: Unknown error''
                 | Some code \<Rightarrow>
                     if code = ''channel_not_found''
                       then ''Channel not found. Please check the channel ID format (C...)''
                     else if code = ''invalid_auth''
                       then ''Invalid authentication. Please check your token.''
                     else ''Slack API error: '' @ code))"
proof
  assume h: "srv (tr @ [Get (api_url endpoint) params]) = Response r \<and>
   status_code r \<noteq> 429 \<and> (status_code r < 400 \<or> 600 \<le> status_code r) \<and>
   (j_ok (json r) = None \<or> j_ok (json r) = Some False)"
  then have "make_request srv endpoint params tr =
           Some (Inl (ValueError
             (case j_error (json r) of
                None \<Rightarrow> ''Slack API error: Unknown error''
              | Some code \<Rightarrow>
                  if code = ''channel_not_found''
                    then ''Channel not found. Please check the channel ID format (C...)''
                  else if code = ''invalid_auth''
                    then ''Invalid authentication. Please check your token.''
                  else ''Slack API error: '' @ code)),
             tr @ [Get (api_url endpoint) params])"
    by (intro make_request_error_mapping) simp_all
  then show "\<exists>msg.
          make_request srv endpoint params tr =
            Some (Inl (ValueError msg), tr @ [Get (api_url endpoint) params]) \<and>
          main_except (ValueError msg) = Configuration_Error msg \<and>
          msg = (case j_error (json r) of
                   None \<Rightarrow> ''Slack API error: Unknown error''
                 | Some code \<Rightarrow>
                     if code = ''channel_not_found''
                       then ''Channel not found. Please check the channel ID format (C...)''
                     else if code = ''invalid_auth''
                       then ''Invalid authentication. Please check your token.''
                     else ''Slack API error: '' @ code)"
    by simp
qed

theorem make_request_api_error_witness:
  "make_request
     (\<lambda>tr. Response \<lparr>status_code = 200, retry_after = None, http_error = [],
        json = \<lparr>j_ok = Some False, j_error = Some ''ratelimited'', j_messages = None,
                j_next_cursor = None\<rparr>\<rparr>)
     ''conversations.history'' [(''channel'', PStr ''C1''), (''limit'', PInt 1000)] [] =
   Some (Inl (ValueError ''Slack API error: ratelimited''),
         [Get (api_url ''conversations.history'')
            [(''channel'', PStr ''C1''), (''limit'', PInt 1000)]])"
  using make_request_api_error
    [of "\<lambda>tr. Response \<lparr>status_code = 200, retry_after = None, http_error = [],
        json = \<lparr>j_ok = Some False, j_error = Some ''ratelimited'', j_messages = None,
                j_next_cursor = None\<rparr>\<rparr>"
      "[]" "''conversations.history''" "[(''channel'', PStr ''C1''), (''limit'', PInt 1000)]"
      "\<lparr>status_code = 200, retry_after = None, http_error = [],
        json = \<lparr>j_ok = Some False, j_error = Some ''ratelimited'', j_messages = None,
                j_next_cursor = None\<rparr>\<rparr>"]
  by simp

text \<open>
  The claim as it was stated has the third case raise an error of a kind of its own,
  distinct from the configuration error. The code \<open>not_in_channel\<close> is none of the
  two named codes, and the exception it raises is a ValueError like the one for
  \<open>channel_not_found\<close>; main reports both as configuration errors.
\<close>

theorem make_request_api_error_kind_counterexample:
  "make_request
     (\<lambda>tr. Response \<lparr>status_code = 200, retry_after = None, http_error = [],
        json = \<lparr>j_ok = Some False, j_error = Some ''not_in_channel'', j_messages = None,
                j_next_cursor = None\<rparr>\<rparr>)
     ''conversations.history'' [] [] =
   Some (Inl (ValueError ''Slack API error: not_in_channel''),
         [Get (api_url ''conversations.history'') []]) \<and>
   main_except (ValueError ''Slack API error: not_in_channel'') =
     Configuration_Error ''Slack API error: not_in_channel'' \<and>
   make_request
     (\<lambda>tr. Response \<lparr>status_code = 200, retry_after = None, http_error = [],
        json = \<lparr>j_ok = Some False, j_error = Some ''channel_not_found'', j_messages = None,
                j_next_cursor = None\<rparr>\<rparr>)
     ''conversations.history'' [] [] =
   Some (Inl (ValueError ''Channel not found. Please check the channel ID format (C...)''),
         [Get (api_url ''conversations.history'') []]) \<and>
   main_except (ValueError ''Channel not found. Please check the channel ID format (C...)'') =
     Configuration_Error ''Channel not found. Please check the channel ID format (C...)''"
  by (simp add: make_request_error_mapping)

subsection \<open>Pagination\<close>

text \<open>
  Claim C1. With a positive limit \<open>l\<close>: at any round of the loop, when the page that
  the request brings takes the count of messages to \<open>l\<close> or beyond, the call returns
  the first \<open>l\<close> messages, exactly \<open>l\<close> of them, and the trace ends with that
  request: no further page is asked for. No call with a positive limit returns more
  than \<open>l\<close> messages. Without a limit, a round ends the call when the response has no
  cursor or an empty one, and otherwise goes on with the cursor it got. With pages of
  1000, 1000 and 400 messages, the call without a limit makes three requests and
  returns the 2400 messages; with the limit 1500 it makes two requests, the second for
  500 messages, and returns the first 1500.
\<close>

theorem get_channel_messages_pagination:
  "(0 < l \<and>
    make_request srv ''conversations.history''
      (history_params channel_id (Some l) cursor (int (length messages))) tr
      = Some (Inr data, tr_next) \<and>
    l \<le> int (length messages) + int (length (get_messages data))
    \<longrightarrow> fetch_loop srv channel_id (Some l) messages cursor (int (length messages)) tr =
          Some (Inr (take (nat l) (messages @ map (SlackMessage channel_id) (get_messages data))),
                tr_next) \<and>
        int (length (take (nat l) (messages @ map (SlackMessage channel_id) (get_messages data))))
          = l) \<and>
   (0 < l \<and> get_channel_messages srv channel_id (Some l) tr = Some (Inr result, tr')
    \<longrightarrow> int (length result) \<le> l) \<and>
   (make_request srv ''conversations.history''
      (history_params channel_id None cursor fetched_count) tr
      = Some (Inr data', tr_next')
    \<longrightarrow> fetch_loop srv channel_id None messages cursor fetched_count tr =
          (if j_next_cursor data' = None \<or> j_next_cursor data' = Some []
           then Some (Inr (messages @ map (SlackMessage channel_id) (get_messages data')), tr_next')
           else fetch_loop srv channel_id None
                  (messages @ map (SlackMessage channel_id) (get_messages data'))
                  (j_next_cursor data')
                  (fetched_count + int (length (get_messages data'))) tr_next')) \<and>
   (length first_page = 1000 \<and> length second_page = 1000 \<and> length third_page = 400
    \<longrightarrow> get_channel_messages (paged_server [first_page, second_page, third_page]) channel_id None [] =
          Some (Inr (map (SlackMessage channel_id) (first_page @ second_page @ third_page)),
            [Get (api_url ''conversations.history'')
               [(''channel'', PStr channel_id), (''limit'', PInt 1000)],
             Get (api_url ''conversations.history'')
               [(''channel'', PStr channel_id), (''limit'', PInt 1000), (''cursor'', PStr ''c'')],
             Get (api_url ''conversations.history'')
               [(''channel'', PStr channel_id), (''limit'', PInt 1000), (''cursor'', PStr ''cc'')]]) \<and>
        length (map (SlackMessage channel_id) (first_page @ second_page @ third_page)) = 2400 \<and>
        get_channel_messages (paged_server [first_page, second_page, third_page]) channel_id (Some 1500) [] =
          Some (Inr (take 1500 (map (SlackMessage channel_id) (first_page @ second_page))),
            [Get (api_url ''conversations.history'')
               [(''channel'', PStr channel_id), (''limit'', PInt 1000)],
             Get (api_url ''conversations.history'')
               [(''channel'', PStr channel_id), (''limit'', PInt 500), (''cursor'', PStr ''c'')]]) \<and>
        length (take 1500 (map (SlackMessage channel_id) (first_page @ second_page))) = 1500)"
proof (intro conjI impI)
  assume h: "0 < l \<and>
    make_request srv ''conversations.history''
      (history_params channel_id (Some l) cursor (int (length messages))) tr
      = Some (Inr data, tr_next) \<and>
    l \<le> int (length messages) + int (length (get_messages data))"
  then show "fetch_loop srv channel_id (Some l) messages cursor (int (length messages)) tr =
          Some (Inr (take (nat l) (messages @ map (SlackMessage channel_id) (get_messages data))),
                tr_next)"
    by (intro fetch_loop_limit_reached) simp_all
  define xs where "xs = messages @ map (SlackMessage channel_id) (get_messages data)"
  from h have "l \<le> int (length messages + length (get_messages data))"
    by simp
  then have "nat l \<le> length messages + length (get_messages data)"
    by linarith
  then have "nat l \<le> length xs"
    by (simp add: xs_def)
  then have "length (take (nat l) xs) = nat l"
    by simp
  with h have "int (length (take (nat l) xs)) = l"
    by simp
  then show "int (length (take (nat l)
                 (messages @ map (SlackMessage channel_id) (get_messages data)))) = l"
    by (simp only: xs_def)
next
  assume h: "0 < l \<and> get_channel_messages srv channel_id (Some l) tr = Some (Inr result, tr')"
  then have "fetch_loop srv channel_id (Some l) [] None 0 tr = Some (Inr result, tr')"
    by (simp add: get_channel_messages_def)
  from fetch_loop_bound_aux [OF this] h show "int (length result) \<le> l"
    by simp
next
  assume h: "make_request srv ''conversations.history''
      (history_params channel_id None cursor fetched_count) tr
      = Some (Inr data', tr_next')"
  have "\<not> (truthy_int None \<and> the None \<le> fetched_count + int (length (get_messages data')))"
    by (simp add: truthy_int_def)
  from fetch_loop_continue [OF h this, of messages]
  show "fetch_loop srv channel_id None messages cursor fetched_count tr =
          (if j_next_cursor data' = None \<or> j_next_cursor data' = Some []
           then Some (Inr (messages @ map (SlackMessage channel_id) (get_messages data')), tr_next')
           else fetch_loop srv channel_id None
                  (messages @ map (SlackMessage channel_id) (get_messages data'))
                  (j_next_cursor data')
                  (fetched_count + int (length (get_messages data'))) tr_next')"
    by (simp add: truthy_str_def)
next
  show "get_channel_messages (paged_server [first_page, second_page, third_page]) channel_id None [] =
          Some (Inr (map (SlackMessage channel_id) (first_page @ second_page @ third_page)),
            [Get (api_url ''conversations.history'')
               [(''channel'', PStr channel_id), (''limit'', PInt 1000)],
             Get (api_url ''conversations.history'')
               [(''channel'', PStr channel_id), (''limit'', PInt 1000), (''cursor'', PStr ''c'')],
             Get (api_url ''conversations.history'')
               [(''channel'', PStr channel_id), (''limit'', PInt 1000), (''cursor'', PStr ''cc'')]])"
    by (rule three_pages_no_limit)
next
  assume "length first_page = 1000 \<and> length second_page = 1000 \<and> length third_page = 400"
  then show "length (map (SlackMessage channel_id) (first_page @ second_page @ third_page)) = 2400" by simp
next
  assume "length first_page = 1000 \<and> length second_page = 1000 \<and> length third_page = 400"
  then show "get_channel_messages (paged_server [first_page, second_page, third_page]) channel_id (Some 1500) [] =
          Some (Inr (take 1500 (map (SlackMessage channel_id) (first_page @ second_page))),
            [Get (api_url ''conversations.history'')
               [(''channel'', PStr channel_id), (''limit'', PInt 1000)],
             Get (api_url ''conversations.history'')
               [(''channel'', PStr channel_id), (''limit'', PInt 500), (''cursor'', PStr ''c'')]])"
    by (intro three_pages_limit) simp_all
next
  assume "length first_page = 1000 \<and> length second_page = 1000 \<and> length third_page = 400"
  then show "length (take 1500 (map (SlackMessage channel_id) (first_page @ second_page))) = 1500" by simp
qed

theorem get_channel_messages_pagination_witness:
  "length (replicate 1000 \<lparr>d_text = Some ''hi'', d_user = Some ''U1'', d_ts = Some 7,
       d_thread_ts = None, d_reply_count = None, d_reactions = None\<rparr>) = 1000 \<and>
   make_request
     (paged_server
       [replicate 1000 \<lparr>d_text = Some ''hi'', d_user = Some ''U1'', d_ts = Some 7,
          d_thread_ts = None, d_reply_count = None, d_reactions = None\<rparr>,
        replicate 1000 \<lparr>d_text = Some ''hi'', d_user = Some ''U1'', d_ts = Some 7,
          d_thread_ts = None, d_reply_count = None, d_reactions = None\<rparr>,
        replicate 400 \<lparr>d_text = Some ''hi'', d_user = Some ''U1'', d_ts = Some 7,
          d_thread_ts = None, d_reply_count = None, d_reactions = None\<rparr>])
     ''conversations.history''
     (history_params ''C1'' (Some 1500) (Some ''c'') 1000)
     [Get (api_url ''conversations.history'') [(''channel'', PStr ''C1''), (''limit'', PInt 1000)]] =
   Some (Inr \<lparr>j_ok = Some True, j_error = None,
           j_messages = Some (replicate 1000 \<lparr>d_text = Some ''hi'', d_user = Some ''U1'',
              d_ts = Some 7, d_thread_ts = None, d_reply_count = None, d_reactions = None\<rparr>),
           j_next_cursor = Some ''cc''\<rparr>,
         [Get (api_url ''conversations.history'') [(''channel'', PStr ''C1''), (''limit'', PInt 1000)],
          Get (api_url ''conversations.history'')
            [(''channel'', PStr ''C1''), (''limit'', PInt 500), (''cursor'', PStr ''c'')]]) \<and>
   fetch_loop
     (paged_server
       [replicate 1000 \<lparr>d_text = Some ''hi'', d_user = Some ''U1'', d_ts = Some 7,
          d_thread_ts = None, d_reply_count = None, d_reactions = None\<rparr>,
        replicate 1000 \<lparr>d_text = Some ''hi'', d_user = Some ''U1'', d_ts = Some 7,
          d_thread_ts = None, d_reply_count = None, d_reactions = None\<rparr>,
        replicate 400 \<lparr>d_text = Some ''hi'', d_user = Some ''U1'', d_ts = Some 7,
          d_thread_ts = None, d_reply_count = None, d_reactions = None\<rparr>])
     ''C1'' (Some 1500)
     (replicate 1000 \<lparr>msg_text = ''hi'', user = ''U1'', timestamp = 7, channel = ''C1'',
        thread_ts = None, reply_count = 0, reactions = []\<rparr>)
     (Some ''c'') 1000
     [Get (api_url ''conversations.history'') [(''channel'', PStr ''C1''), (''limit'', PInt 1000)]] =
   Some (Inr (replicate 1500 \<lparr>msg_text = ''hi'', user = ''U1'', timestamp = 7, channel = ''C1'',
                thread_ts = None, reply_count = 0, reactions = []\<rparr>),
         [Get (api_url ''conversations.history'') [(''channel'', PStr ''C1''), (''limit'', PInt 1000)],
          Get (api_url ''conversations.history'')
            [(''channel'', PStr ''C1''), (''limit'', PInt 500), (''cursor'', PStr ''c'')]]) \<and>
   get_channel_messages
     (paged_server
       [replicate 1000 \<lparr>d_text = Some ''hi'', d_user = Some ''U1'', d_ts = Some 7,
          d_thread_ts = None, d_reply_count = None, d_reactions = None\<rparr>,
        replicate 1000 \<lparr>d_text = Some ''hi'', d_user = Some ''U1'', d_ts = Some 7,
          d_thread_ts = None, d_reply_count = None, d_reactions = None\<rparr>,
        replicate 400 \<lparr>d_text = Some ''hi'', d_user = Some ''U1'', d_ts = Some 7,
          d_thread_ts = None, d_reply_count = None, d_reactions = None\<rparr>])
     ''C1'' None [] =
   Some (Inr (replicate 2400 \<lparr>msg_text = ''hi'', user = ''U1'', timestamp = 7, channel = ''C1'',
                thread_ts = None, reply_count = 0, reactions = []\<rparr>),
         [Get (api_url ''conversations.history'') [(''channel'', PStr ''C1''), (''limit'', PInt 1000)],
          Get (api_url ''conversations.history'')
            [(''channel'', PStr ''C1''), (''limit'', PInt 1000), (''cursor'', PStr ''c'')],
          Get (api_url ''conversations.history'')
            [(''channel'', PStr ''C1''), (''limit'', PInt 1000), (''cursor'', PStr ''cc'')]]) \<and>
   get_channel_messages
     (paged_server
       [replicate 1000 \<lparr>d_text = Some ''hi'', d_user = Some ''U1'', d_ts = Some 7,
          d_thread_ts = None, d_reply_count = None, d_reactions = None\<rparr>,
        replicate 1000 \<lparr>d_text = Some ''hi'', d_user = Some ''U1'', d_ts = Some 7,
          d_thread_ts = None, d_reply_count = None, d_reactions = None\<rparr>,
        replicate 400 \<lparr>d_text = Some ''hi'', d_user = Some ''U1'', d_ts = Some 7,
          d_thread_ts = None, d_reply_count = None, d_reactions = None\<rparr>])
     ''C1'' (Some 1500) [] =
   Some (Inr (replicate 1500 \<lparr>msg_text = ''hi'', user = ''U1'', timestamp = 7, channel = ''C1'',
                thread_ts = None, reply_count = 0, reactions = []\<rparr>),
         [Get (api_url ''conversations.history'') [(''channel'', PStr ''C1''), (''limit'', PInt 1000)],
          Get (api_url ''conversations.history'')
            [(''channel'', PStr ''C1''), (''limit'', PInt 500), (''cursor'', PStr ''c'')]])"
proof -
  let ?md = "\<lparr>d_text = Some ''hi'', d_user = Some ''U1'', d_ts = Some 7,
       d_thread_ts = None, d_reply_count = None, d_reactions = None\<rparr>"
  let ?m = "\<lparr>msg_text = ''hi'', user = ''U1'', timestamp = 7, channel = ''C1'',
        thread_ts = None, reply_count = 0, reactions = []\<rparr>"
  let ?srv = "paged_server [replicate 1000 ?md, replicate 1000 ?md, replicate 400 ?md]"
  let ?g1 = "Get (api_url ''conversations.history'') [(''channel'', PStr ''C1''), (''limit'', PInt 1000)]"
  let ?g2 = "Get (api_url ''conversations.history'')
            [(''channel'', PStr ''C1''), (''limit'', PInt 500), (''cursor'', PStr ''c'')]"
  let ?data = "\<lparr>j_ok = Some True, j_error = None, j_messages = Some (replicate 1000 ?md),
           j_next_cursor = Some ''cc''\<rparr>"
  have m: "SlackMessage ''C1'' ?md = ?m"
    by (simp add: SlackMessage_def)
  have len: "length (replicate 1000 ?md) = 1000" by simp
  have hp: "history_params ''C1'' (Some 1500) (Some ''c'') 1000 =
            [(''channel'', PStr ''C1''), (''limit'', PInt 500), (''cursor'', PStr ''c'')]"
    by (simp add: history_params_def truthy_int_def truthy_str_def)
  have r2: "make_request ?srv ''conversations.history''
              (history_params ''C1'' (Some 1500) (Some ''c'') 1000) [?g1] = Some (Inr ?data, [?g1, ?g2])"
    using make_request_page [of ?srv "[?g1]" "''conversations.history''"
        "history_params ''C1'' (Some 1500) (Some ''c'') 1000" "replicate 1000 ?md" "Some ''cc''"]
    by (simp add: hp paged_server_def)
  note t = get_channel_messages_pagination
      [where l = 1500 and srv = ?srv and channel_id = "''C1''" and cursor = "Some ''c''"
         and messages = "replicate 1000 ?m" and tr = "[?g1]" and data = ?data
         and tr_next = "[?g1, ?g2]" and first_page = "replicate 1000 ?md" and second_page = "replicate 1000 ?md"
         and third_page = "replicate 400 ?md"]
  have a: "fetch_loop ?srv ''C1'' (Some 1500) (replicate 1000 ?m) (Some ''c'') 1000 [?g1] =
        Some (Inr (replicate 1500 ?m), [?g1, ?g2])"
    using t r2 by (simp add: get_messages_def m replicate_add [symmetric])
  have b: "get_channel_messages ?srv ''C1'' None [] =
        Some (Inr (replicate 2400 ?m),
          [?g1,
           Get (api_url ''conversations.history'')
            [(''channel'', PStr ''C1''), (''limit'', PInt 1000), (''cursor'', PStr ''c'')],
           Get (api_url ''conversations.history'')
            [(''channel'', PStr ''C1''), (''limit'', PInt 1000), (''cursor'', PStr ''cc'')]])"
    using t by (simp add: m replicate_add [symmetric])
  have c: "get_channel_messages ?srv ''C1'' (Some 1500) [] = Some (Inr (replicate 1500 ?m), [?g1, ?g2])"
    using t by (simp add: m replicate_add [symmetric])
  from len r2 a b c show ?thesis by (intro conjI)
qed

text \<open>
  Claim C10. The limit 0 is the same as no limit: the call does the same and returns
  the same, every request asks for a page of 1000, and nothing is cut off; with three
  pages the call returns the messages of all three, not an empty list.
\<close>

theorem get_channel_messages_zero_limit:
  "get_channel_messages srv channel_id (Some 0) tr = get_channel_messages srv channel_id None tr \<and>
   history_params channel_id (Some 0) cursor fetched_count =
     [(''channel'', PStr channel_id), (''limit'', PInt 1000)] @
     (if truthy_str cursor then [(''cursor'', PStr (the cursor))] else []) \<and>
   get_channel_messages (paged_server [p1, p2, p3]) channel_id (Some 0) [] =
     Some (Inr (map (SlackMessage channel_id) (p1 @ p2 @ p3)),
       [Get (api_url ''conversations.history'')
          [(''channel'', PStr channel_id), (''limit'', PInt 1000)],
        Get (api_url ''conversations.history'')
          [(''channel'', PStr channel_id), (''limit'', PInt 1000), (''cursor'', PStr ''c'')],
        Get (api_url ''conversations.history'')
          [(''channel'', PStr channel_id), (''limit'', PInt 1000), (''cursor'', PStr ''cc'')]])"
proof (intro conjI)
  show eq: "get_channel_messages srv channel_id (Some 0) tr =
        get_channel_messages srv channel_id None tr" for srv tr
    by (simp add: get_channel_messages_def fetch_loop_zero_limit)
  show "history_params channel_id (Some 0) cursor fetched_count =
     [(''channel'', PStr channel_id), (''limit'', PInt 1000)] @
     (if truthy_str cursor then [(''cursor'', PStr (the cursor))] else [])"
    by (simp add: history_params_def truthy_int_def)
  show "get_channel_messages (paged_server [p1, p2, p3]) channel_id (Some 0) [] =
     Some (Inr (map (SlackMessage channel_id) (p1 @ p2 @ p3)),
       [Get (api_url ''conversations.history'')
          [(''channel'', PStr channel_id), (''limit'', PInt 1000)],
        Get (api_url ''conversations.history'')
          [(''channel'', PStr channel_id), (''limit'', PInt 1000), (''cursor'', PStr ''c'')],
        Get (api_url ''conversations.history'')
          [(''channel'', PStr channel_id), (''limit'', PInt 1000), (''cursor'', PStr ''cc'')]])"
    by (simp only: eq three_pages_no_limit)
qed

section \<open>Properties of the export\<close>

text \<open>
  Claim C4. Exporting a list that is not empty in a format that is neither
  \<open>json\<close> nor \<open>csv\<close> should fail with a ValueError, the configuration error that
  the code raises in its last branch. That branch stands inside the \<^verbatim>\<open>try\<close> whose
  handler for every exception raises an IOError in its place: here, for the format
  \<open>xml\<close>, the export makes the directory and then fails with the IOError of a failed
  write.
\<close>

theorem export_messages_unsupported_format:
  "export_messages (\<lambda>tr. None) (\<lambda>ts. ts)
     [\<lparr>msg_text = ''hi'', user = ''U1'', timestamp = 1, channel = ''C1'', thread_ts = None,
       reply_count = 0, reactions = []\<rparr>]
     ''out/messages.xml'' ''xml'' [] =
   (Inl (IOError (''Error writing file: Unsupported format: xml. Use '' @ quoted ''json'' @
                   '' or '' @ quoted ''csv'')),
    [Makedirs ''out''])"
  by (simp add: export_messages_def dirname_def lower_def lower_char_def quoted_def)

text \<open>
  Claim C9. Exporting an empty list of messages returns without an error and without
  any operation on the file system, whatever the path and the format: no directory is
  made and no file is written.
\<close>

theorem export_messages_empty:
  "export_messages fs fromtimestamp [] output_path format tr = (Inr (), tr)"
  by (simp add: export_messages_def)

end
